theory Spec2Isabelle
  imports Main "HOL-Library.Word"
begin

section \<open>Data model\<close>

text \<open>
  The controller of \<^verbatim>\<open>pkg/controller/oneagent/oneagent_controller.go\<close> is embedded as
  functions that pass two things explicitly: the in-memory \<^verbatim>\<open>*OneAgent\<close> the Go code mutates
  through its pointer, and the history of calls made to the collaborators (the cluster
  client, the vendor API client, the clock). A collaborator's answer is a function of
  that history and of the call's arguments, so every behaviour of the store, of the
  daemonset controller acting behind it and of the vendor API is covered by some
  environment. Log calls have no effect on control flow and are left out.
\<close>

type_synonym Time = nat
  \<comment> \<open>\<^verbatim>\<open>metav1.Time\<close>; the zero value is \<open>0\<close>\<close>

type_synonym Duration = int
  \<comment> \<open>\<^verbatim>\<open>time.Duration\<close>: nanoseconds\<close>

definition Second :: Duration where
  "Second = 1000000000"

definition Minute :: Duration where
  "Minute = 60 * Second"

text \<open>
  Go \<^verbatim>\<open>error\<close> values. The first two are the API errors of the store, told apart by
  \<^verbatim>\<open>errors.IsNotFound\<close>; the last two are the controller's own \<^verbatim>\<open>fmt.Errorf\<close> values,
  kept with the argument of their format string.
\<close>

datatype error =
    StatusNotFound string
  | StatusFailure string
  | WaitingForPod string
  | TooManyPods nat

fun IsNotFound :: "error \<Rightarrow> bool" where
  "IsNotFound (StatusNotFound m) = True"
| "IsNotFound (StatusFailure m) = False"
| "IsNotFound (WaitingForPod n) = False"
| "IsNotFound (TooManyPods n) = False"

datatype panic = IndexOutOfRange | NilPointerDereference

datatype 'a outcome = Panic panic | Return 'a

record EnvVar =
  EnvName :: string
  EnvValue :: string
  EnvSecretKeyRef :: "(string \<times> string) option"

type_synonym OneAgentInstance = "string \<times> string \<times> bool"
  \<comment> \<open>Modelled from the spec: the status types are declared in the API package, which is
      not among the sources; an entry is node, installed version, readiness flag\<close>

record OneAgentStatus =
  Version :: string
  UpdatedTimestamp :: Time
  Items :: "string \<rightharpoonup> OneAgentInstance"

definition emptyStatus :: OneAgentStatus where
  "emptyStatus = \<lparr>Version = [], UpdatedTimestamp = 0, Items = Map.empty\<rparr>"
  \<comment> \<open>the composite literal \<^verbatim>\<open>dynatracev1alpha1.OneAgentStatus{}\<close>\<close>

record OneAgentSpec =
  ApiUrl :: string
  SkipCertCheck :: bool
  NodeSelector :: "(string \<times> string) list"
  Tolerations :: "string list"
  WaitReadySeconds :: "16 word option"
  ImageName :: string
  Tokens :: string
  Args :: "string list"
  Env :: "EnvVar list"
  Resources :: string
  PriorityClassName :: string
  DisableAgentUpdate :: bool
  EnableIstio :: bool

record OneAgent =
  Name :: string
  Namespace :: string
  Spec :: OneAgentSpec
  Status :: OneAgentStatus

record Pod =
  PodName :: string
  PodNodeName :: string
  PodPhase :: string
  PodConditions :: "(string \<times> string) list"

definition PodRunning :: string where
  "PodRunning = ''Running''"

record Container =
  CArgs :: "string list"
  CEnv :: "EnvVar list"
  CImage :: string
  CImagePullPolicy :: string
  CName :: string
  CReadinessCommand :: "string list"
  CResources :: string
  CPrivileged :: bool
  CVolumeMounts :: "(string \<times> string) list"

record PodSpec =
  Containers :: "Container list"
  HostNetwork :: bool
  HostPID :: bool
  HostIPC :: bool
  PSNodeSelector :: "(string \<times> string) list"
  PSPriorityClassName :: string
  ServiceAccountName :: string
  PSTolerations :: "string list"
  Volumes :: "(string \<times> string) list"

record DaemonSetSpec =
  Selector :: "(string \<times> string) list"
  TemplateLabels :: "(string \<times> string) list"
  TemplateSpec :: PodSpec

record DaemonSet =
  DSName :: string
  DSNamespace :: string
  DSLabels :: "(string \<times> string) list"
  DSOwner :: "(string \<times> string) option"
  DSSpec :: DaemonSetSpec

type_synonym NamespacedName = "string \<times> string"
  \<comment> \<open>namespace, name\<close>

type_synonym ListOptions = "string \<times> (string \<times> string) list"
  \<comment> \<open>namespace, label selector\<close>

record Result =
  Requeue :: bool
  RequeueAfter :: Duration

definition emptyResult :: Result where
  "emptyResult = \<lparr>Requeue = False, RequeueAfter = 0\<rparr>"
  \<comment> \<open>\<^verbatim>\<open>reconcile.Result{}\<close>\<close>

subsection \<open>Calls to collaborators\<close>

datatype event =
    EvGet NamespacedName
  | EvUpdate OneAgent
  | EvStatusUpdate OneAgent
  | EvNow
  | EvBuildClient
  | EvIstio
  | EvGetDaemonSet NamespacedName
  | EvCreate DaemonSet
  | EvUpdateDaemonSet DaemonSet
  | EvGetVersionForLatest
  | EvList ListOptions
  | EvGetPodsToRestart
  | EvDelete Pod
  | EvSleep Duration

type_synonym trace = "event list"

text \<open>
  The collaborators, none of which is among the sources: the split client
  (\<^verbatim>\<open>Get\<close>, \<^verbatim>\<open>Create\<close>, \<^verbatim>\<open>Update\<close>, \<^verbatim>\<open>Status().Update\<close>, \<^verbatim>\<open>List\<close>, \<^verbatim>\<open>Delete\<close>), the scheme's
  defaulting, the injected \<^verbatim>\<open>dynatraceClientFunc\<close>, the vendor client's
  \<^verbatim>\<open>GetVersionForLatest\<close>, and the package's helpers \<^verbatim>\<open>validate\<close>, \<^verbatim>\<open>reconcileIstio\<close>,
  \<^verbatim>\<open>hasSpecChanged\<close>, \<^verbatim>\<open>buildLabels\<close>, \<^verbatim>\<open>getPodsToRestart\<close> and \<^verbatim>\<open>getPodReadyState\<close>.
  Each effectful one reads the history of calls so far. A write that fails leaves the
  object it was given as it is; a write that succeeds decodes the server's answer into it
  (the comment in \<^verbatim>\<open>updateCR\<close> says so), hence \<open>error + OneAgent\<close>.
\<close>

record 'dtc env =
  GetOneAgent :: "trace \<Rightarrow> NamespacedName \<Rightarrow> error + OneAgent"
  SchemeDefault :: "OneAgent \<Rightarrow> OneAgent"
  validate :: "OneAgent \<Rightarrow> error option"
  Update :: "trace \<Rightarrow> OneAgent \<Rightarrow> error + OneAgent"
  StatusUpdate :: "trace \<Rightarrow> OneAgent \<Rightarrow> error + OneAgent"
  Now :: "trace \<Rightarrow> Time"
  dynatraceClientFunc :: "trace \<Rightarrow> OneAgent \<Rightarrow> error + 'dtc"
  reconcileIstio :: "trace \<Rightarrow> OneAgent \<Rightarrow> 'dtc \<Rightarrow> bool \<times> bool"
  SetControllerReference :: "OneAgent \<Rightarrow> DaemonSet \<Rightarrow> error + DaemonSet"
  GetDaemonSet :: "trace \<Rightarrow> NamespacedName \<Rightarrow> error + DaemonSet"
  CreateDaemonSet :: "trace \<Rightarrow> DaemonSet \<Rightarrow> error option"
  UpdateDaemonSet :: "trace \<Rightarrow> DaemonSet \<Rightarrow> error option"
  hasSpecChanged :: "DaemonSetSpec \<Rightarrow> OneAgentSpec \<Rightarrow> bool"
  buildLabels :: "string \<Rightarrow> (string \<times> string) list"
  GetVersionForLatest :: "trace \<Rightarrow> 'dtc \<Rightarrow> error + string"
  ListPods :: "trace \<Rightarrow> ListOptions \<Rightarrow> error + Pod list"
  getPodsToRestart ::
    "trace \<Rightarrow> Pod list \<Rightarrow> 'dtc \<Rightarrow> OneAgent \<Rightarrow> Pod list \<times> (string \<rightharpoonup> OneAgentInstance)"
  DeletePod :: "trace \<Rightarrow> Pod \<Rightarrow> error option"
  getPodReadyState :: "Pod \<Rightarrow> bool"

section \<open>Status persistence: \<^verbatim>\<open>updateCR\<close>\<close>

text \<open>
  Lines 295 to 317. The result is the returned error and the instance as the caller's
  pointer sees it afterwards.
\<close>

definition updateCR ::
  "'dtc env \<Rightarrow> OneAgent \<Rightarrow> trace \<Rightarrow> (error option \<times> OneAgent) \<times> trace" where
  "updateCR r instance tr =
     (let stamped = instance\<lparr>Status := (Status instance)\<lparr>UpdatedTimestamp := Now r tr\<rparr>\<rparr>;
          tr1 = tr @ [EvNow];
          newStatus = Status stamped;
          sent = stamped\<lparr>Status := emptyStatus\<rparr>;
          tr2 = tr1 @ [EvUpdate sent]
      in case Update r tr1 sent of
           Inl err \<Rightarrow> ((Some err, sent), tr2)
         | Inr stored \<Rightarrow>
             (let restored = stored\<lparr>Status := newStatus\<rparr>;
                  tr3 = tr2 @ [EvStatusUpdate restored]
              in case StatusUpdate r tr2 restored of
                   Inl err \<Rightarrow> ((Some err, restored), tr3)
                 | Inr stored' \<Rightarrow> ((None, stored'), tr3)))"

section \<open>Rollout: \<^verbatim>\<open>deletePods\<close> and \<^verbatim>\<open>waitPodReadyState\<close>\<close>

definition splayTimeSeconds :: "16 word" where
  "splayTimeSeconds = 10"
  \<comment> \<open>line 37: \<^verbatim>\<open>const splayTimeSeconds = uint16(10)\<close>\<close>

definition splaySleep :: Duration where
  "splaySleep = int (unat splayTimeSeconds) * Second"
  \<comment> \<open>line 440: \<^verbatim>\<open>time.Duration(splayTimeSeconds) * time.Second\<close>\<close>

text \<open>
  Lines 454 to 462, the inner loop over \<^verbatim>\<open>podList.Items\<close>: the third argument is the slice
  \<^verbatim>\<open>foundPods\<close> built so far, appended to unless the \<^verbatim>\<open>continue\<close> is taken.
\<close>

fun foundPods :: "Pod \<Rightarrow> Pod list \<Rightarrow> Pod list \<Rightarrow> Pod list" where
  "foundPods pod [] found = found"
| "foundPods pod (p # items) found =
     (if PodNodeName p \<noteq> PodNodeName pod \<or> PodPhase p \<noteq> PodRunning \<or> PodName p = PodName pod
      then foundPods pod items found
      else foundPods pod items (found @ [p]))"

text \<open>
  Lines 464 to 470, the end of one iteration after a successful \<^verbatim>\<open>List\<close> (which left
  \<^verbatim>\<open>status\<close> nil): either the \<^verbatim>\<open>break\<close>, or the value \<^verbatim>\<open>status\<close> has when the iteration ends.
\<close>

datatype iteration = Break | Next "error option"

definition checkFoundPods :: "'dtc env \<Rightarrow> Pod \<Rightarrow> Pod list \<Rightarrow> iteration" where
  "checkFoundPods r pod found =
     (if length found = 0 then Next (Some (WaitingForPod (PodNodeName pod)))
      else if length found = 1 \<and> getPodReadyState r (found ! 0) then Break
      else if length found > 1 then Next (Some (TooManyPods (length found)))
      else Next None)"

definition listOpsFor :: "'dtc env \<Rightarrow> OneAgent \<Rightarrow> ListOptions" where
  "listOpsFor r instance = (Namespace instance, buildLabels r (Name instance))"
  \<comment> \<open>lines 264 to 268 and 433 to 437\<close>

text \<open>
  Lines 439 to 472, the loop from the test of its condition on, with the current \<^verbatim>\<open>splay\<close>
  and \<^verbatim>\<open>status\<close>. \<^verbatim>\<open>splay\<close> is a \<^verbatim>\<open>uint16\<close> and \<^verbatim>\<open>splay += splayTimeSeconds\<close> wraps around;
  \<^verbatim>\<open>WaitReadySeconds\<close> is a \<^verbatim>\<open>*uint16\<close> and the condition dereferences it. The loop need not
  end, so the result is an option: \<open>None\<close> is a call that never returns.
\<close>

partial_function (option) waitLoop ::
  "'dtc env \<Rightarrow> OneAgent \<Rightarrow> Pod \<Rightarrow> 16 word \<Rightarrow> error option \<Rightarrow> trace
     \<Rightarrow> (error option outcome \<times> trace) option" where
  "waitLoop r instance pod splay status tr =
     (case WaitReadySeconds (Spec instance) of
        None \<Rightarrow> Some (Panic NilPointerDereference, tr)
      | Some timeout \<Rightarrow>
          if splay < timeout then
            (case ListPods r (tr @ [EvSleep splaySleep]) (listOpsFor r instance) of
               Inl err \<Rightarrow>
                 waitLoop r instance pod (splay + splayTimeSeconds) (Some err)
                   (tr @ [EvSleep splaySleep, EvList (listOpsFor r instance)])
             | Inr items \<Rightarrow>
                 (case checkFoundPods r pod (foundPods pod items []) of
                    Break \<Rightarrow>
                      Some (Return None, tr @ [EvSleep splaySleep, EvList (listOpsFor r instance)])
                  | Next status' \<Rightarrow>
                      waitLoop r instance pod (splay + splayTimeSeconds) status'
                        (tr @ [EvSleep splaySleep, EvList (listOpsFor r instance)])))
          else Some (Return status, tr))"

definition waitPodReadyState ::
  "'dtc env \<Rightarrow> OneAgent \<Rightarrow> Pod \<Rightarrow> trace \<Rightarrow> (error option outcome \<times> trace) option" where
  "waitPodReadyState r instance pod tr = waitLoop r instance pod 0 None tr"

text \<open>Lines 407 to 428.\<close>

fun deletePods ::
  "'dtc env \<Rightarrow> OneAgent \<Rightarrow> Pod list \<Rightarrow> trace \<Rightarrow> (error option outcome \<times> trace) option" where
  "deletePods r instance [] tr = Some (Return None, tr)"
| "deletePods r instance (pod # pods) tr =
     (case DeletePod r tr pod of
        Some err \<Rightarrow> Some (Return (Some err), tr @ [EvDelete pod])
      | None \<Rightarrow>
          (case waitPodReadyState r instance pod (tr @ [EvDelete pod]) of
             None \<Rightarrow> None
           | Some (Panic c, tr') \<Rightarrow> Some (Panic c, tr')
           | Some (Return (Some err), tr') \<Rightarrow> Some (Return (Some err), tr')
           | Some (Return None, tr') \<Rightarrow> deletePods r instance pods tr'))"

section \<open>Daemonset convergence: \<^verbatim>\<open>reconcileRollout\<close>\<close>

definition dynatracePaasToken :: string where
  "dynatracePaasToken = ''paasToken''"

text \<open>Lines 353 to 400 and 333 to 351.\<close>

definition newPodSpecForCR :: "OneAgent \<Rightarrow> PodSpec" where
  "newPodSpecForCR instance =
     \<lparr>Containers =
        [\<lparr>CArgs = Args (Spec instance),
          CEnv = Env (Spec instance),
          CImage = ImageName (Spec instance),
          CImagePullPolicy = ''Always'',
          CName = ''dynatrace-oneagent'',
          CReadinessCommand = [''/bin/sh'', ''-c'', ''grep -q oneagentwatchdo /proc/[0-9]*/stat''],
          CResources = Resources (Spec instance),
          CPrivileged = True,
          CVolumeMounts = [(''host-root'', ''/mnt/root'')]\<rparr>],
      HostNetwork = True,
      HostPID = True,
      HostIPC = True,
      PSNodeSelector = NodeSelector (Spec instance),
      PSPriorityClassName = PriorityClassName (Spec instance),
      ServiceAccountName = ''dynatrace-oneagent'',
      PSTolerations = Tolerations (Spec instance),
      Volumes = [(''host-root'', ''/'')]\<rparr>"

definition newDaemonSetForCR :: "'dtc env \<Rightarrow> OneAgent \<Rightarrow> DaemonSet" where
  "newDaemonSetForCR r instance =
     \<lparr>DSName = Name instance,
      DSNamespace = Namespace instance,
      DSLabels = buildLabels r (Name instance),
      DSOwner = None,
      DSSpec =
        \<lparr>Selector = buildLabels r (Name instance),
         TemplateLabels = buildLabels r (Name instance),
         TemplateSpec = newPodSpecForCR instance\<rparr>\<rparr>"

definition installerTokenEnv :: "OneAgent \<Rightarrow> EnvVar" where
  "installerTokenEnv instance =
     \<lparr>EnvName = ''ONEAGENT_INSTALLER_TOKEN'',
      EnvValue = [],
      EnvSecretKeyRef = Some (Tokens (Spec instance), dynatracePaasToken)\<rparr>"

text \<open>
  Lines 182 to 227. \<^verbatim>\<open>instance.Spec.Env[0]\<close> is an index expression on a slice: on an empty
  slice the Go runtime panics, before anything else is done. The result carries the
  instance as the caller's pointer sees it afterwards (the inserted entry stays on every
  return).
\<close>

definition reconcileRollout ::
  "'dtc env \<Rightarrow> OneAgent \<Rightarrow> trace \<Rightarrow> ((bool \<times> error option) \<times> OneAgent) outcome \<times> trace" where
  "reconcileRollout r instance tr =
     (case Env (Spec instance) of
        [] \<Rightarrow> (Panic IndexOutOfRange, tr)
      | first # others \<Rightarrow>
          (let updateCR = (EnvName first \<noteq> ''ONEAGENT_INSTALLER_TOKEN'');
               instance' =
                 (if updateCR
                  then instance\<lparr>Spec := (Spec instance)
                         \<lparr>Env := [] @ ([installerTokenEnv instance] @ Env (Spec instance))\<rparr>\<rparr>
                  else instance)
           in case SetControllerReference r instance' (newDaemonSetForCR r instance') of
                Inl err \<Rightarrow> (Return ((False, Some err), instance'), tr)
              | Inr dsDesired \<Rightarrow>
                  (let key = (DSNamespace dsDesired, DSName dsDesired);
                       trGet = tr @ [EvGetDaemonSet key]
                   in case GetDaemonSet r tr key of
                        Inl err \<Rightarrow>
                          if IsNotFound err then
                            (case CreateDaemonSet r trGet dsDesired of
                               Some err' \<Rightarrow>
                                 (Return ((False, Some err'), instance'),
                                  trGet @ [EvCreate dsDesired])
                             | None \<Rightarrow>
                                 (Return ((updateCR, None), instance'),
                                  trGet @ [EvCreate dsDesired]))
                          else (Return ((False, Some err), instance'), trGet)
                      | Inr dsActual \<Rightarrow>
                          if hasSpecChanged r (DSSpec dsActual) (Spec instance') then
                            (case UpdateDaemonSet r trGet dsDesired of
                               Some err' \<Rightarrow>
                                 (Return ((False, Some err'), instance'),
                                  trGet @ [EvUpdateDaemonSet dsDesired])
                             | None \<Rightarrow>
                                 (Return ((updateCR, None), instance'),
                                  trGet @ [EvUpdateDaemonSet dsDesired]))
                          else (Return ((updateCR, None), instance'), trGet))))"

section \<open>Version convergence: \<^verbatim>\<open>reconcileVersion\<close>\<close>

text \<open>Lines 248 to 293.\<close>

definition reconcileVersion ::
  "'dtc env \<Rightarrow> OneAgent \<Rightarrow> 'dtc \<Rightarrow> trace
     \<Rightarrow> (((bool \<times> error option) \<times> OneAgent) outcome \<times> trace) option" where
  "reconcileVersion r instance dtc tr =
     (case GetVersionForLatest r tr dtc of
        Inl err \<Rightarrow> Some (Return ((False, None), instance), tr @ [EvGetVersionForLatest])
      | Inr desired \<Rightarrow>
          (let newer = (desired \<noteq> [] \<and> Version (Status instance) \<noteq> desired);
               instance1 =
                 (if newer then instance\<lparr>Status := (Status instance)\<lparr>Version := desired\<rparr>\<rparr>
                  else instance);
               tr1 = tr @ [EvGetVersionForLatest];
               tr2 = tr1 @ [EvList (listOpsFor r instance1)]
           in case ListPods r tr1 (listOpsFor r instance1) of
                Inl err \<Rightarrow> Some (Return ((newer, Some err), instance1), tr2)
              | Inr items \<Rightarrow>
                  (let restart = getPodsToRestart r tr2 items dtc instance1;
                       changed = (snd restart \<noteq> Items (Status instance1));
                       instance2 =
                         (if changed
                          then instance1\<lparr>Status := (Status instance1)\<lparr>Items := snd restart\<rparr>\<rparr>
                          else instance1);
                       updateCR = (if changed then True else newer)
                   in case deletePods r instance2 (fst restart) (tr2 @ [EvGetPodsToRestart]) of
                        None \<Rightarrow> None
                      | Some (Panic c, tr3) \<Rightarrow> Some (Panic c, tr3)
                      | Some (Return (Some err), tr3) \<Rightarrow>
                          Some (Return ((updateCR, Some err), instance2), tr3)
                      | Some (Return None, tr3) \<Rightarrow>
                          Some (Return ((updateCR, None), instance2), tr3))))"

section \<open>The tick: \<^verbatim>\<open>Reconcile\<close>\<close>

text \<open>Lines 99 to 180.\<close>

definition Reconcile ::
  "'dtc env \<Rightarrow> NamespacedName \<Rightarrow> trace \<Rightarrow> ((Result \<times> error option) outcome \<times> trace) option" where
  "Reconcile r request tr =
     (case GetOneAgent r tr request of
        Inl err \<Rightarrow>
          if IsNotFound err then Some (Return (emptyResult, None), tr @ [EvGet request])
          else Some (Return (emptyResult, Some err), tr @ [EvGet request])
      | Inr fetched \<Rightarrow>
          (let instance = SchemeDefault r fetched;
               tr1 = tr @ [EvGet request]
           in case validate r instance of
                Some err \<Rightarrow> Some (Return (emptyResult, Some err), tr1)
              | None \<Rightarrow>
                  if Tokens (Spec instance) = [] then
                    (case updateCR r
                            (instance\<lparr>Spec := (Spec instance)\<lparr>Tokens := Name instance\<rparr>\<rparr>) tr1 of
                       ((Some err, instance'), tr2) \<Rightarrow> Some (Return (emptyResult, Some err), tr2)
                     | ((None, instance'), tr2) \<Rightarrow>
                         Some (Return (emptyResult\<lparr>Requeue := True\<rparr>, None), tr2))
                  else
                    (case dynatraceClientFunc r tr1 instance of
                       Inl err \<Rightarrow> Some (Return (emptyResult, Some err), tr1 @ [EvBuildClient])
                     | Inr dtc \<Rightarrow>
                         (let tr2 = tr1 @ [EvBuildClient];
                              istio =
                                (if EnableIstio (Spec instance)
                                 then reconcileIstio r tr2 instance dtc else (False, False));
                              tr3 = (if EnableIstio (Spec instance) then tr2 @ [EvIstio] else tr2)
                          in if EnableIstio (Spec instance) \<and> snd istio \<and> fst istio
                             then Some (Return (emptyResult\<lparr>Requeue := True\<rparr>, None), tr3)
                             else
                               (case reconcileRollout r instance tr3 of
                                  (Panic c, tr4) \<Rightarrow> Some (Panic c, tr4)
                                | (Return ((upd, Some err), instance1), tr4) \<Rightarrow>
                                    Some (Return (emptyResult, Some err), tr4)
                                | (Return ((True, None), instance1), tr4) \<Rightarrow>
                                    (case updateCR r instance1 tr4 of
                                       ((Some err, instance2), tr5) \<Rightarrow>
                                         Some (Return (emptyResult, Some err), tr5)
                                     | ((None, instance2), tr5) \<Rightarrow>
                                         Some (Return (emptyResult\<lparr>RequeueAfter := 5 * Minute\<rparr>,
                                                 None), tr5))
                                | (Return ((False, None), instance1), tr4) \<Rightarrow>
                                    if DisableAgentUpdate (Spec instance1)
                                    then Some (Return (emptyResult, None), tr4)
                                    else
                                      (case reconcileVersion r instance1 dtc tr4 of
                                         None \<Rightarrow> None
                                       | Some (Panic c, tr5) \<Rightarrow> Some (Panic c, tr5)
                                       | Some (Return ((upd, Some err), instance2), tr5) \<Rightarrow>
                                           Some (Return (emptyResult, Some err), tr5)
                                       | Some (Return ((True, None), instance2), tr5) \<Rightarrow>
                                           (case updateCR r instance2 tr5 of
                                              ((Some err, instance3), tr6) \<Rightarrow>
                                                Some (Return (emptyResult, Some err), tr6)
                                            | ((None, instance3), tr6) \<Rightarrow>
                                                Some (Return
                                                  (emptyResult\<lparr>RequeueAfter := 5 * Minute\<rparr>,
                                                   None), tr6))
                                       | Some (Return ((False, None), instance2), tr5) \<Rightarrow>
                                           Some (Return
                                             (emptyResult\<lparr>RequeueAfter := 30 * Minute\<rparr>,
                                              None), tr5)))))))"

section \<open>Scenarios\<close>

text \<open>
  Concrete instances, pods and environments on which the functions above are run. The
  steady environment is a cluster in which every call succeeds, the daemonset exists and
  matches, no pod is listed and the vendor API answers with a version.
\<close>

definition agent :: OneAgent where
  "agent =
     \<lparr>Name = ''oneagent'',
      Namespace = ''dynatrace'',
      Spec =
        \<lparr>ApiUrl = ''https://tenant.example/api'',
         SkipCertCheck = False,
         NodeSelector = [],
         Tolerations = [],
         WaitReadySeconds = Some 10,
         ImageName = ''oneagent:latest'',
         Tokens = ''oneagent'',
         Args = [],
         Env =
           [\<lparr>EnvName = ''ONEAGENT_INSTALLER_TOKEN'', EnvValue = [],
             EnvSecretKeyRef = Some (''oneagent'', ''paasToken'')\<rparr>],
         Resources = [],
         PriorityClassName = [],
         DisableAgentUpdate = False,
         EnableIstio = False\<rparr>,
      Status = \<lparr>Version = ''1.0'', UpdatedTimestamp = 7, Items = Map.empty\<rparr>\<rparr>"

definition withTimeout :: "16 word \<Rightarrow> OneAgent \<Rightarrow> OneAgent" where
  "withTimeout t instance = instance\<lparr>Spec := (Spec instance)\<lparr>WaitReadySeconds := Some t\<rparr>\<rparr>"

definition runningPod :: "string \<Rightarrow> string \<Rightarrow> bool \<Rightarrow> Pod" where
  "runningPod name node ready =
     \<lparr>PodName = name, PodNodeName = node, PodPhase = ''Running'',
      PodConditions = [(''Ready'', if ready then ''True'' else ''False'')]\<rparr>"

definition podA :: Pod where
  "podA = runningPod ''agent-a1'' ''node-a'' True"

definition podB :: Pod where
  "podB = runningPod ''agent-b1'' ''node-b'' True"

fun isList :: "event \<Rightarrow> bool" where
  "isList (EvList ops) = True"
| "isList e = False"

definition polls :: "trace \<Rightarrow> nat" where
  "polls tr = length (filter isList tr)"
  \<comment> \<open>how many \<^verbatim>\<open>List\<close> calls a history holds\<close>

fun deleted :: "trace \<Rightarrow> Pod list" where
  "deleted [] = []"
| "deleted (EvDelete pod # tr) = pod # deleted tr"
| "deleted (e # tr) = deleted tr"

definition agentLabels :: "string \<Rightarrow> (string \<times> string) list" where
  "agentLabels name = [(''dynatrace'', ''oneagent''), (''oneagent'', name)]"

definition agentDaemonSet :: DaemonSet where
  "agentDaemonSet =
     \<lparr>DSName = ''oneagent'',
      DSNamespace = ''dynatrace'',
      DSLabels = agentLabels ''oneagent'',
      DSOwner = Some (''OneAgent'', ''oneagent''),
      DSSpec =
        \<lparr>Selector = agentLabels ''oneagent'',
         TemplateLabels = agentLabels ''oneagent'',
         TemplateSpec = newPodSpecForCR agent\<rparr>\<rparr>"

definition steady :: "unit env" where
  "steady =
     \<lparr>GetOneAgent = (\<lambda>tr key. Inr agent),
      SchemeDefault = (\<lambda>instance. instance),
      validate = (\<lambda>instance. None),
      Update = (\<lambda>tr instance. Inr instance),
      StatusUpdate = (\<lambda>tr instance. Inr instance),
      Now = (\<lambda>tr. 42),
      dynatraceClientFunc = (\<lambda>tr instance. Inr ()),
      reconcileIstio = (\<lambda>tr instance dtc. (False, True)),
      SetControllerReference =
        (\<lambda>instance ds. Inr (ds\<lparr>DSOwner := Some (''OneAgent'', Name instance)\<rparr>)),
      GetDaemonSet = (\<lambda>tr key. Inr agentDaemonSet),
      CreateDaemonSet = (\<lambda>tr ds. None),
      UpdateDaemonSet = (\<lambda>tr ds. None),
      hasSpecChanged = (\<lambda>actual spec. False),
      buildLabels = agentLabels,
      GetVersionForLatest = (\<lambda>tr dtc. Inr ''1.0''),
      ListPods = (\<lambda>tr ops. Inr []),
      getPodsToRestart = (\<lambda>tr items dtc instance. ([], Map.empty)),
      DeletePod = (\<lambda>tr pod. None),
      getPodReadyState = (\<lambda>pod. (''Ready'', ''True'') \<in> set (PodConditions pod))\<rparr>"

text \<open>The spec-update write is refused by the store.\<close>

definition updateRefused :: "unit env" where
  "updateRefused = steady\<lparr>Update := (\<lambda>tr instance. Inl (StatusFailure ''conflict''))\<rparr>"

text \<open>The status-only write is refused by the store.\<close>

definition statusUpdateRefused :: "unit env" where
  "statusUpdateRefused =
     steady\<lparr>StatusUpdate := (\<lambda>tr instance. Inl (StatusFailure ''conflict''))\<rparr>"

text \<open>Every pod to delete is already gone.\<close>

definition podsGone :: "unit env" where
  "podsGone = steady\<lparr>DeletePod := (\<lambda>tr pod. Some (StatusNotFound ''pods''))\<rparr>"

text \<open>
  The first poll of a rollout lists two running pods on node \<open>node-a\<close>, neither of them
  the deleted one; every later poll lists one ready replacement on each node.
\<close>

definition twoThenOne :: "unit env" where
  "twoThenOne =
     steady\<lparr>ListPods :=
       (\<lambda>tr ops.
          if polls tr = 0
          then Inr [runningPod ''agent-a2'' ''node-a'' True, runningPod ''agent-a3'' ''node-a'' True]
          else Inr [runningPod ''agent-a2'' ''node-a'' True,
                    runningPod ''agent-b2'' ''node-b'' True])\<rparr>"

text \<open>
  Every poll lists one replacement on node \<open>node-a\<close>, running but not ready, and nothing
  on node \<open>node-b\<close>.
\<close>

definition neverReady :: "unit env" where
  "neverReady =
     steady\<lparr>ListPods := (\<lambda>tr ops. Inr [runningPod ''agent-a2'' ''node-a'' False])\<rparr>"

text \<open>The vendor API cannot be reached.\<close>

definition vendorDown :: "unit env" where
  "vendorDown = steady\<lparr>GetVersionForLatest := (\<lambda>tr dtc. Inl (StatusFailure ''timeout''))\<rparr>"

text \<open>The declared instance has automatic updates switched off.\<close>

definition updatesOff :: "unit env" where
  "updatesOff =
     steady\<lparr>GetOneAgent :=
       (\<lambda>tr key. Inr (agent\<lparr>Spec := (Spec agent)\<lparr>DisableAgentUpdate := True\<rparr>\<rparr>))\<rparr>"

text \<open>The declared instance has no extra environment variable.\<close>

definition noEnv :: "unit env" where
  "noEnv = steady\<lparr>GetOneAgent := (\<lambda>tr key. Inr (agent\<lparr>Spec := (Spec agent)\<lparr>Env := []\<rparr>\<rparr>))\<rparr>"

text \<open>Every poll lists one ready replacement on node \<open>node-a\<close>.\<close>

definition replaced :: "unit env" where
  "replaced =
     steady\<lparr>ListPods := (\<lambda>tr ops. Inr [runningPod ''agent-a2'' ''node-a'' True])\<rparr>"

text \<open>As before, and the pod of node \<open>node-b\<close> is already gone when it is to be deleted.\<close>

definition secondGone :: "unit env" where
  "secondGone =
     replaced\<lparr>DeletePod :=
       (\<lambda>tr pod. if PodName pod = ''agent-b1'' then Some (StatusNotFound ''pods'') else None)\<rparr>"

section \<open>Properties of the rollout\<close>

subsection \<open>One iteration of the readiness loop\<close>

lemma foundPods_filter:
  "foundPods pod items found =
     found @ filter (\<lambda>p. PodNodeName p = PodNodeName pod \<and> PodPhase p = PodRunning \<and>
                           PodName p \<noteq> PodName pod) items"
  by (induction items arbitrary: found) auto

lemma checkFoundPods_Break:
  "checkFoundPods r pod found = Break \<longleftrightarrow> (\<exists>p. found = [p] \<and> getPodReadyState r p)"
proof (cases found)
  case Nil
  then show ?thesis by (simp add: checkFoundPods_def)
next
  case (Cons p ps)
  then show ?thesis by (cases ps) (simp_all add: checkFoundPods_def)
qed

lemma waitLoop_exit:
  "WaitReadySeconds (Spec inst) = Some timeout \<Longrightarrow> \<not> splay < timeout \<Longrightarrow>
   waitLoop r inst pod splay status tr = Some (Return status, tr)"
  by (subst waitLoop.simps) simp

lemma waitLoop_poll:
  "WaitReadySeconds (Spec inst) = Some timeout \<Longrightarrow> splay < timeout \<Longrightarrow>
   ListPods r (tr @ [EvSleep splaySleep]) (listOpsFor r inst) = Inr items \<Longrightarrow>
   waitLoop r inst pod splay status tr =
     (case checkFoundPods r pod (foundPods pod items []) of
        Break \<Rightarrow> Some (Return None, tr @ [EvSleep splaySleep, EvList (listOpsFor r inst)])
      | Next status' \<Rightarrow>
          waitLoop r inst pod (splay + splayTimeSeconds) status'
            (tr @ [EvSleep splaySleep, EvList (listOpsFor r inst)]))"
  by (subst waitLoop.simps) simp

lemma waitLoop_list_error:
  "WaitReadySeconds (Spec inst) = Some timeout \<Longrightarrow> splay < timeout \<Longrightarrow>
   ListPods r (tr @ [EvSleep splaySleep]) (listOpsFor r inst) = Inl err \<Longrightarrow>
   waitLoop r inst pod splay status tr =
     waitLoop r inst pod (splay + splayTimeSeconds) (Some err)
       (tr @ [EvSleep splaySleep, EvList (listOpsFor r inst)])"
  by (subst waitLoop.simps) simp

text \<open>
  C8. In an iteration whose \<^verbatim>\<open>List\<close> call succeeds, the pods kept in \<^verbatim>\<open>foundPods\<close> are exactly
  the listed pods on the deleted pod's node, in phase \<^verbatim>\<open>Running\<close>, with another name than
  the deleted pod, in the order listed. The iteration takes the \<^verbatim>\<open>break\<close> if and only if
  there is exactly one such pod and \<^verbatim>\<open>getPodReadyState\<close> holds of it; the wait then ends
  with a nil error and no further call, and otherwise the loop goes on with the next value
  of \<^verbatim>\<open>splay\<close>.
\<close>

theorem poll_candidates_and_success:
  assumes "WaitReadySeconds (Spec inst) = Some timeout"
    and "splay < timeout"
    and "ListPods r (tr @ [EvSleep splaySleep]) (listOpsFor r inst) = Inr items"
  shows "foundPods pod items [] =
           filter (\<lambda>p. PodNodeName p = PodNodeName pod \<and> PodPhase p = PodRunning \<and>
                        PodName p \<noteq> PodName pod) items
       \<and> (checkFoundPods r pod (foundPods pod items []) = Break \<longleftrightarrow>
            (\<exists>p. foundPods pod items [] = [p] \<and> getPodReadyState r p))
       \<and> (checkFoundPods r pod (foundPods pod items []) = Break \<longrightarrow>
            waitLoop r inst pod splay status tr =
              Some (Return None, tr @ [EvSleep splaySleep, EvList (listOpsFor r inst)]))
       \<and> (\<forall>status'. checkFoundPods r pod (foundPods pod items []) = Next status' \<longrightarrow>
            waitLoop r inst pod splay status tr =
              waitLoop r inst pod (splay + splayTimeSeconds) status'
                (tr @ [EvSleep splaySleep, EvList (listOpsFor r inst)]))"
proof (intro conjI)
  show "foundPods pod items [] =
           filter (\<lambda>p. PodNodeName p = PodNodeName pod \<and> PodPhase p = PodRunning \<and>
                        PodName p \<noteq> PodName pod) items"
    by (simp add: foundPods_filter)
  show "checkFoundPods r pod (foundPods pod items []) = Break \<longleftrightarrow>
            (\<exists>p. foundPods pod items [] = [p] \<and> getPodReadyState r p)"
    by (rule checkFoundPods_Break)
  show "checkFoundPods r pod (foundPods pod items []) = Break \<longrightarrow>
            waitLoop r inst pod splay status tr =
              Some (Return None, tr @ [EvSleep splaySleep, EvList (listOpsFor r inst)])"
    by (simp add: waitLoop_poll [OF assms])
  show "\<forall>status'. checkFoundPods r pod (foundPods pod items []) = Next status' \<longrightarrow>
            waitLoop r inst pod splay status tr =
              waitLoop r inst pod (splay + splayTimeSeconds) status'
                (tr @ [EvSleep splaySleep, EvList (listOpsFor r inst)])"
    by (simp add: waitLoop_poll [OF assms])
qed

text \<open>
  The theorem at the first poll after \<open>agent-a1\<close> was deleted, in a cluster that lists one
  ready replacement on its node.
\<close>

theorem poll_candidates_and_success_witness:
  "WaitReadySeconds (Spec agent) = Some 10
   \<and> ListPods replaced ([EvDelete podA] @ [EvSleep splaySleep]) (listOpsFor replaced agent) =
       Inr [runningPod ''agent-a2'' ''node-a'' True]
   \<and> foundPods podA [runningPod ''agent-a2'' ''node-a'' True] [] =
       [runningPod ''agent-a2'' ''node-a'' True]
   \<and> checkFoundPods replaced podA
        (foundPods podA [runningPod ''agent-a2'' ''node-a'' True] []) = Break
   \<and> waitLoop replaced agent podA 0 None [EvDelete podA] =
       Some (Return None,
             [EvDelete podA] @ [EvSleep splaySleep, EvList (listOpsFor replaced agent)])"
proof -
  have t: "WaitReadySeconds (Spec agent) = Some 10"
    by (simp add: agent_def)
  have lt: "(0 :: 16 word) < 10"
    by simp
  have l: "ListPods replaced ([EvDelete podA] @ [EvSleep splaySleep]) (listOpsFor replaced agent) =
       Inr [runningPod ''agent-a2'' ''node-a'' True]"
    by (simp add: replaced_def steady_def)
  have f: "foundPods podA [runningPod ''agent-a2'' ''node-a'' True] [] =
       [runningPod ''agent-a2'' ''node-a'' True]"
    by (simp add: podA_def runningPod_def PodRunning_def)
  have b: "checkFoundPods replaced podA [runningPod ''agent-a2'' ''node-a'' True] = Break"
    by (simp add: checkFoundPods_def replaced_def steady_def runningPod_def)
  from poll_candidates_and_success [OF t lt l, of podA None] t l f b
  show ?thesis by simp
qed

subsection \<open>More than one pod on the node\<close>

lemma deletePods_wait_error:
  "DeletePod r tr pod = None \<Longrightarrow>
   waitPodReadyState r inst pod (tr @ [EvDelete pod]) = Some (Return (Some err), tr') \<Longrightarrow>
   deletePods r inst (pod # pods) tr = Some (Return (Some err), tr')"
  by simp

text \<open>
  C4, as the code has it. A poll that finds more than one running pod on the node (the
  deleted pod's own name left out) sets \<^verbatim>\<open>status\<close> to the error "too many pods found" and
  ends the iteration without leaving the loop. While the next value of \<^verbatim>\<open>splay\<close> is below
  the timeout the polling goes on with that status; only when this poll was the last one
  the timeout allows is the error the result of the wait. When \<^verbatim>\<open>waitPodReadyState\<close>
  returns this error for a pod whose delete succeeded, \<^verbatim>\<open>deletePods\<close> returns it with the
  history the wait left, so it deletes no further pod.
\<close>

theorem too_many_pods_recorded:
  assumes "WaitReadySeconds (Spec inst) = Some timeout"
    and "splay < timeout"
    and "ListPods r (tr @ [EvSleep splaySleep]) (listOpsFor r inst) = Inr items"
    and "1 < length (foundPods pod items [])"
  shows "waitLoop r inst pod splay status tr =
           (if splay + splayTimeSeconds < timeout
            then waitLoop r inst pod (splay + splayTimeSeconds)
                   (Some (TooManyPods (length (foundPods pod items []))))
                   (tr @ [EvSleep splaySleep, EvList (listOpsFor r inst)])
            else Some (Return (Some (TooManyPods (length (foundPods pod items [])))),
                       tr @ [EvSleep splaySleep, EvList (listOpsFor r inst)]))
       \<and> (\<forall>tr0 tr1 pods n.
             DeletePod r tr0 pod = None \<and>
             waitPodReadyState r inst pod (tr0 @ [EvDelete pod]) =
               Some (Return (Some (TooManyPods n)), tr1) \<longrightarrow>
             deletePods r inst (pod # pods) tr0 = Some (Return (Some (TooManyPods n)), tr1))"
proof
  have "checkFoundPods r pod (foundPods pod items []) =
          Next (Some (TooManyPods (length (foundPods pod items []))))"
    using assms(4) by (auto simp: checkFoundPods_def)
  then have "waitLoop r inst pod splay status tr =
      waitLoop r inst pod (splay + splayTimeSeconds)
        (Some (TooManyPods (length (foundPods pod items []))))
        (tr @ [EvSleep splaySleep, EvList (listOpsFor r inst)])"
    by (simp add: waitLoop_poll [OF assms(1-3)])
  then show "waitLoop r inst pod splay status tr =
           (if splay + splayTimeSeconds < timeout
            then waitLoop r inst pod (splay + splayTimeSeconds)
                   (Some (TooManyPods (length (foundPods pod items []))))
                   (tr @ [EvSleep splaySleep, EvList (listOpsFor r inst)])
            else Some (Return (Some (TooManyPods (length (foundPods pod items [])))),
                       tr @ [EvSleep splaySleep, EvList (listOpsFor r inst)]))"
    by (simp add: waitLoop_exit [OF assms(1)])
  show "\<forall>tr0 tr1 pods n.
             DeletePod r tr0 pod = None \<and>
             waitPodReadyState r inst pod (tr0 @ [EvDelete pod]) =
               Some (Return (Some (TooManyPods n)), tr1) \<longrightarrow>
             deletePods r inst (pod # pods) tr0 = Some (Return (Some (TooManyPods n)), tr1)"
    by (simp add: deletePods_wait_error)
qed

text \<open>
  The theorem in the cluster that lists two running pods on \<open>node-a\<close> at the first poll,
  with the timeout of 10 seconds that allows one poll: the wait returns the error, and
  \<^verbatim>\<open>deletePods\<close> stops before the pod of \<open>node-b\<close>.
\<close>

theorem too_many_pods_recorded_witness:
  "WaitReadySeconds (Spec agent) = Some 10
   \<and> ListPods twoThenOne ([EvDelete podA] @ [EvSleep splaySleep]) (listOpsFor twoThenOne agent) =
       Inr [runningPod ''agent-a2'' ''node-a'' True, runningPod ''agent-a3'' ''node-a'' True]
   \<and> length (foundPods podA
        [runningPod ''agent-a2'' ''node-a'' True, runningPod ''agent-a3'' ''node-a'' True] []) = 2
   \<and> waitLoop twoThenOne agent podA 0 None [EvDelete podA] =
       Some (Return (Some (TooManyPods 2)),
             [EvDelete podA, EvSleep splaySleep, EvList (listOpsFor twoThenOne agent)])
   \<and> deletePods twoThenOne agent [podA, podB] [] =
       Some (Return (Some (TooManyPods 2)),
             [EvDelete podA, EvSleep splaySleep, EvList (listOpsFor twoThenOne agent)])"
proof -
  have t: "WaitReadySeconds (Spec agent) = Some 10"
    by (simp add: agent_def)
  have lt: "(0 :: 16 word) < 10"
    by simp
  have l: "ListPods twoThenOne ([EvDelete podA] @ [EvSleep splaySleep])
       (listOpsFor twoThenOne agent) =
       Inr [runningPod ''agent-a2'' ''node-a'' True, runningPod ''agent-a3'' ''node-a'' True]"
    by (simp add: twoThenOne_def steady_def polls_def)
  have f: "length (foundPods podA
        [runningPod ''agent-a2'' ''node-a'' True, runningPod ''agent-a3'' ''node-a'' True] []) = 2"
    by (simp add: podA_def runningPod_def PodRunning_def)
  have m: "1 < length (foundPods podA
        [runningPod ''agent-a2'' ''node-a'' True, runningPod ''agent-a3'' ''node-a'' True] [])"
    unfolding f by simp
  note step = too_many_pods_recorded [OF t lt l m, of None]
  have w: "waitLoop twoThenOne agent podA 0 None [EvDelete podA] =
       Some (Return (Some (TooManyPods 2)),
             [EvDelete podA, EvSleep splaySleep, EvList (listOpsFor twoThenOne agent)])"
    using step [THEN conjunct1] unfolding f by (simp add: splayTimeSeconds_def)
  have d: "DeletePod twoThenOne [] podA = None"
    by (simp add: twoThenOne_def steady_def)
  have w': "waitPodReadyState twoThenOne agent podA ([] @ [EvDelete podA]) =
       Some (Return (Some (TooManyPods 2)),
             [EvDelete podA, EvSleep splaySleep, EvList (listOpsFor twoThenOne agent)])"
    using w by (simp add: waitPodReadyState_def)
  note stop = step [THEN conjunct2, rule_format, OF conjI [OF d w']]
  from t l f w stop show ?thesis by blast
qed

text \<open>
  C4 as stated fails. With a timeout of 20 seconds the first poll after deleting
  \<open>agent-a1\<close> finds two running pods on \<open>node-a\<close>, the second poll finds one ready
  replacement: no error is reported, the polling went on after the first poll, and the pod
  of \<open>node-b\<close> is deleted in the same call.
\<close>

theorem too_many_pods_not_fatal_counterexample:
  "ListPods twoThenOne [EvDelete podA, EvSleep splaySleep] (listOpsFor twoThenOne agent) =
       Inr [runningPod ''agent-a2'' ''node-a'' True, runningPod ''agent-a3'' ''node-a'' True]
   \<and> length (foundPods podA
        [runningPod ''agent-a2'' ''node-a'' True, runningPod ''agent-a3'' ''node-a'' True] []) = 2
   \<and> deletePods twoThenOne (withTimeout 20 agent) [podA, podB] [] =
       Some (Return None,
         [EvDelete podA,
          EvSleep splaySleep, EvList (listOpsFor twoThenOne agent),
          EvSleep splaySleep, EvList (listOpsFor twoThenOne agent),
          EvDelete podB,
          EvSleep splaySleep, EvList (listOpsFor twoThenOne agent)])"
  by (simp add: waitPodReadyState_def waitLoop.simps agent_def withTimeout_def twoThenOne_def
      steady_def checkFoundPods_def runningPod_def podA_def podB_def PodRunning_def
      splayTimeSeconds_def polls_def listOpsFor_def)

subsection \<open>A delete that fails\<close>

lemma deletePods_append:
  "deletePods r inst (before @ rest) tr =
     (case deletePods r inst before tr of
        Some (Return None, tr') \<Rightarrow> deletePods r inst rest tr'
      | other \<Rightarrow> other)"
proof (induction before arbitrary: tr)
  case Nil
  show ?case by simp
next
  case (Cons pod before)
  show ?case
    by (simp add: Cons.IH split: option.splits prod.splits outcome.splits)
qed

text \<open>
  C3, as the code has it. Whatever error the store's delete reports for a pod of the list,
  not-found included, \<^verbatim>\<open>deletePods\<close> returns that error at once: it does not wait for a
  replacement on the pod's node and deletes no later pod. The pods before it have been
  deleted and waited for.
\<close>

theorem deletePods_delete_error:
  assumes "deletePods r inst before tr = Some (Return None, tr')"
    and "DeletePod r tr' pod = Some err"
  shows "deletePods r inst (before @ pod # rest) tr =
           Some (Return (Some err), tr' @ [EvDelete pod])"
  using assms by (simp add: deletePods_append)

text \<open>
  The theorem for the second pod of a rollout: \<open>agent-a1\<close> is deleted and replaced, then
  the delete of \<open>agent-b1\<close> reports not-found.
\<close>

theorem deletePods_delete_error_witness:
  "deletePods secondGone agent [podA] [] =
     Some (Return None, [EvDelete podA, EvSleep splaySleep, EvList (listOpsFor secondGone agent)])
   \<and> DeletePod secondGone
       [EvDelete podA, EvSleep splaySleep, EvList (listOpsFor secondGone agent)] podB =
       Some (StatusNotFound ''pods'')
   \<and> IsNotFound (StatusNotFound ''pods'')
   \<and> deletePods secondGone agent ([podA] @ podB # []) [] =
       Some (Return (Some (StatusNotFound ''pods'')),
             [EvDelete podA, EvSleep splaySleep, EvList (listOpsFor secondGone agent)]
               @ [EvDelete podB])"
proof -
  have a: "deletePods secondGone agent [podA] [] =
     Some (Return None, [EvDelete podA, EvSleep splaySleep, EvList (listOpsFor secondGone agent)])"
    by (simp add: waitPodReadyState_def waitLoop.simps agent_def secondGone_def replaced_def
        steady_def checkFoundPods_def runningPod_def podA_def PodRunning_def
        splayTimeSeconds_def listOpsFor_def)
  have b: "DeletePod secondGone
       [EvDelete podA, EvSleep splaySleep, EvList (listOpsFor secondGone agent)] podB =
       Some (StatusNotFound ''pods'')"
    by (simp add: secondGone_def replaced_def steady_def podB_def runningPod_def)
  from deletePods_delete_error [OF a b, of "[]"] a b show ?thesis by simp
qed

text \<open>
  C3 as stated fails: when the first pod of the list is already gone, \<^verbatim>\<open>deletePods\<close>
  returns the not-found error after the delete call, without a sleep or a poll, and the
  second pod is not touched.
\<close>

theorem delete_not_found_counterexample:
  "DeletePod podsGone [] podA = Some (StatusNotFound ''pods'')
   \<and> IsNotFound (StatusNotFound ''pods'')
   \<and> deletePods podsGone agent [podA, podB] [] =
       Some (Return (Some (StatusNotFound ''pods'')), [EvDelete podA])"
  by (simp add: podsGone_def steady_def)

subsection \<open>The loop runs out\<close>

text \<open>
  C5. The claim is that a wait whose loop runs out without the success condition returns
  an error, as the comment of \<^verbatim>\<open>deletePods\<close> promises ("timeout on waiting for ready
  state"). The code returns nil in two cases. With a timeout of 10 seconds and a
  replacement that is running but not ready, the only poll finds one pod, does not take
  the \<^verbatim>\<open>break\<close> and leaves \<^verbatim>\<open>status\<close> nil, as no branch of lines 464 to 470 covers it. With a
  timeout of 0 the loop body never runs and \<^verbatim>\<open>status\<close> is still its zero value.
\<close>

theorem wait_runs_out_with_nil:
  "checkFoundPods neverReady podA
      (foundPods podA [runningPod ''agent-a2'' ''node-a'' False] []) = Next None
   \<and> waitPodReadyState neverReady agent podA [EvDelete podA] =
       Some (Return None,
             [EvDelete podA, EvSleep splaySleep, EvList (listOpsFor neverReady agent)])
   \<and> waitPodReadyState steady (withTimeout 0 agent) podA [EvDelete podA] =
       Some (Return None, [EvDelete podA])"
  by (simp add: waitPodReadyState_def waitLoop.simps agent_def withTimeout_def neverReady_def
      steady_def checkFoundPods_def runningPod_def podA_def PodRunning_def splayTimeSeconds_def)

text \<open>
  C9. \<^verbatim>\<open>deletePods\<close> goes on to the next pod whenever the wait returns nil, so the two cases
  above carry over. In the first, the wait for \<open>node-a\<close> ran out with a replacement that is
  not ready, and \<open>agent-b1\<close> is deleted all the same. In the second, with a timeout of 0,
  both pods are deleted with no poll in between.
\<close>

theorem next_pod_deleted_after_failed_wait:
  "deletePods neverReady agent [podA, podB] [] =
     Some (Return (Some (WaitingForPod ''node-b'')),
       [EvDelete podA, EvSleep splaySleep, EvList (listOpsFor neverReady agent),
        EvDelete podB, EvSleep splaySleep, EvList (listOpsFor neverReady agent)])
   \<and> deletePods steady (withTimeout 0 agent) [podA, podB] [] =
       Some (Return None, [EvDelete podA, EvDelete podB])"
  by (simp add: waitPodReadyState_def waitLoop.simps agent_def withTimeout_def neverReady_def
      steady_def checkFoundPods_def runningPod_def podA_def podB_def PodRunning_def
      splayTimeSeconds_def)

subsection \<open>The loop does not end\<close>

text \<open>
  With the largest timeout a \<^verbatim>\<open>uint16\<close> holds, \<^verbatim>\<open>splay\<close> stays even, wraps around at 65530
  and is below the timeout for ever: unless some poll takes the \<^verbatim>\<open>break\<close>, the call never
  returns.
\<close>

lemma waitLoop_never_returns:
  assumes T: "WaitReadySeconds (Spec inst) = Some (- 1)"
    and nb: "\<And>tr items. ListPods r tr (listOpsFor r inst) = Inr items \<Longrightarrow>
               checkFoundPods r pod (foundPods pod items []) \<noteq> Break"
    and ev: "even splay"
  shows "waitLoop r inst pod splay status tr = None"
proof (rule ccontr)
  assume "waitLoop r inst pod splay status tr \<noteq> None"
  then obtain y where y: "waitLoop r inst pod splay status tr = Some y" by auto
  let ?P = "\<lambda>r' inst' pod' (splay' :: 16 word) (status' :: error option) (tr' :: trace)
              (y' :: error option outcome \<times> trace).
              r' = r \<longrightarrow> inst' = inst \<longrightarrow> pod' = pod \<longrightarrow> odd splay'"
  have "?P r inst pod splay status tr y"
  proof (rule waitLoop.raw_induct [where P = ?P, OF _ y])
    fix loop r' inst' pod' and splay' :: "16 word" and status' tr' ra
    assume IH: "\<And>r' inst' pod' splay' status' tr' y'.
        loop r' inst' pod' splay' status' tr' = Some y' \<Longrightarrow> ?P r' inst' pod' splay' status' tr' y'"
      and body: "(case WaitReadySeconds (Spec inst') of
        None \<Rightarrow> Some (Panic NilPointerDereference, tr')
      | Some timeout \<Rightarrow>
          if splay' < timeout then
            (case ListPods r' (tr' @ [EvSleep splaySleep]) (listOpsFor r' inst') of
               Inl err \<Rightarrow>
                 loop r' inst' pod' (splay' + splayTimeSeconds) (Some err)
                   (tr' @ [EvSleep splaySleep, EvList (listOpsFor r' inst')])
             | Inr items \<Rightarrow>
                 (case checkFoundPods r' pod' (foundPods pod' items []) of
                    Break \<Rightarrow>
                      Some (Return None, tr' @ [EvSleep splaySleep, EvList (listOpsFor r' inst')])
                  | Next status'' \<Rightarrow>
                      loop r' inst' pod' (splay' + splayTimeSeconds) status''
                        (tr' @ [EvSleep splaySleep, EvList (listOpsFor r' inst')])))
          else Some (Return status', tr')) = Some ra"
    show "?P r' inst' pod' splay' status' tr' ra"
    proof (intro impI)
      assume eqs: "r' = r" "inst' = inst" "pod' = pod"
      show "odd splay'"
      proof
        assume ev: "even splay'"
        then have "splay' \<noteq> - 1" by auto
        then have lt: "splay' < - 1" by (simp add: word_order.not_eq_extremum)
        have ev': "even (splay' + splayTimeSeconds)"
          using ev by (simp add: splayTimeSeconds_def)
        from body T lt eqs obtain st tr'' where
          "loop r inst pod (splay' + splayTimeSeconds) st tr'' = Some ra"
          using nb by (auto split: sum.splits iteration.splits)
        from IH [OF this] ev' show False by blast
      qed
    qed
  qed
  with ev show False by blast
qed

text \<open>
  C6. The claim bounds the polls of one wait by the timeout divided by the poll interval,
  rounded up. With a timeout of 65535 seconds and a cluster in which the replacement
  never shows, \<^verbatim>\<open>waitPodReadyState\<close> does not return at all: no number bounds its polls.
\<close>

theorem wait_with_largest_timeout_never_returns:
  "waitPodReadyState steady (withTimeout 65535 agent) podA [EvDelete podA] = None"
  unfolding waitPodReadyState_def
  by (rule waitLoop_never_returns) (simp_all add: withTimeout_def steady_def checkFoundPods_def)

subsection \<open>Timeouts without wrap-around\<close>

lemma splay_step:
  assumes "splay < timeout" "unat timeout \<le> 65530" "10 dvd unat splay"
  shows "unat (splay + splayTimeSeconds) = unat splay + 10"
proof -
  from assms(1) have "unat splay < unat timeout" by (simp add: word_less_nat_alt)
  with assms(2) have "unat splay < 65530" by simp
  with assms(3) have "unat splay \<le> 65520" by presburger
  then have "unat splay + unat (10 :: 16 word) < 2 ^ LENGTH(16)" by simp
  then have "unat (splay + 10) = unat splay + unat (10 :: 16 word)"
    by (simp only: unat_add_lem)
  then show ?thesis by (simp add: splayTimeSeconds_def)
qed

lemma waitLoop_bounded:
  assumes T: "WaitReadySeconds (Spec inst) = Some timeout"
    and le: "unat timeout \<le> 65530"
    and dv: "10 dvd unat splay"
  shows "\<exists>out k. waitLoop r inst pod splay status tr =
             Some (out, tr @ concat (replicate k [EvSleep splaySleep, EvList (listOpsFor r inst)]))
           \<and> k \<le> (unat timeout + 9) div 10 - unat splay div 10"
  using dv
proof (induction "unat timeout - unat splay" arbitrary: splay status tr rule: less_induct)
  case less
  show ?case
  proof (cases "splay < timeout")
    case False
    from waitLoop_exit [OF T False]
    have "waitLoop r inst pod splay status tr =
            Some (Return status,
                  tr @ concat (replicate 0 [EvSleep splaySleep, EvList (listOpsFor r inst)]))"
      by simp
    then show ?thesis by blast
  next
    case True
    let ?round = "[EvSleep splaySleep, EvList (listOpsFor r inst)]"
    have st: "unat (splay + splayTimeSeconds) = unat splay + 10"
      by (rule splay_step [OF True le less.prems])
    from True have lt: "unat splay < unat timeout" by (simp add: word_less_nat_alt)
    have dv': "10 dvd unat (splay + splayTimeSeconds)"
      using less.prems st by simp
    have dec: "unat timeout - unat (splay + splayTimeSeconds) < unat timeout - unat splay"
      using st lt by simp
    have room: "Suc ((unat timeout + 9) div 10 - unat (splay + splayTimeSeconds) div 10)
                \<le> (unat timeout + 9) div 10 - unat splay div 10"
      using st lt less.prems by (auto simp: dvd_def)
    have rec: "\<exists>out k. waitLoop r inst pod (splay + splayTimeSeconds) status' (tr @ ?round) =
             Some (out, tr @ concat (replicate k ?round))
           \<and> k \<le> (unat timeout + 9) div 10 - unat splay div 10" for status'
    proof -
      from less.hyps [OF dec dv', of status' "tr @ ?round"]
      obtain out k where
        r: "waitLoop r inst pod (splay + splayTimeSeconds) status' (tr @ ?round) =
              Some (out, (tr @ ?round) @ concat (replicate k ?round))"
        and k: "k \<le> (unat timeout + 9) div 10 - unat (splay + splayTimeSeconds) div 10"
        by blast
      from r have "waitLoop r inst pod (splay + splayTimeSeconds) status' (tr @ ?round) =
              Some (out, tr @ concat (replicate (Suc k) ?round))"
        by simp
      moreover from k room have "Suc k \<le> (unat timeout + 9) div 10 - unat splay div 10"
        by linarith
      ultimately show ?thesis by blast
    qed
    show ?thesis
    proof (cases "ListPods r (tr @ [EvSleep splaySleep]) (listOpsFor r inst)")
      case (Inl err)
      from waitLoop_list_error [OF T True Inl] rec [of "Some err"]
      show ?thesis by simp
    next
      case (Inr items)
      show ?thesis
      proof (cases "checkFoundPods r pod (foundPods pod items [])")
        case Break
        with waitLoop_poll [OF T True Inr]
        have "waitLoop r inst pod splay status tr =
                Some (Return None, tr @ concat (replicate 1 ?round))"
          by simp
        moreover from room have "1 \<le> (unat timeout + 9) div 10 - unat splay div 10"
          by linarith
        ultimately show ?thesis by blast
      next
        case (Next status')
        with waitLoop_poll [OF T True Inr] rec [of status']
        show ?thesis by simp
      qed
    qed
  qed
qed

lemma polls_rounds:
  "polls (concat (replicate k [EvSleep d, EvList ops])) = k"
  by (induction k) (simp_all add: polls_def)

text \<open>
  For a timeout of at most 65530 seconds the wait for one node returns, whatever the
  store answers, and what it adds to the history is a number of rounds, each a sleep of
  the splay interval followed by one \<^verbatim>\<open>List\<close> call; the number of rounds is at most the
  timeout divided by 10, rounded up.
\<close>

theorem waitPodReadyState_bounded:
  assumes "WaitReadySeconds (Spec inst) = Some timeout"
    and "unat timeout \<le> 65530"
  shows "\<exists>out k. waitPodReadyState r inst pod tr =
             Some (out, tr @ concat (replicate k [EvSleep splaySleep, EvList (listOpsFor r inst)]))
           \<and> polls (concat (replicate k [EvSleep splaySleep, EvList (listOpsFor r inst)])) = k
           \<and> k \<le> (unat timeout + 9) div 10"
proof -
  from waitLoop_bounded [OF assms, of 0 r pod None tr]
  obtain out k where
    "waitLoop r inst pod 0 None tr =
       Some (out, tr @ concat (replicate k [EvSleep splaySleep, EvList (listOpsFor r inst)]))"
    and "k \<le> (unat timeout + 9) div 10"
    by auto
  then show ?thesis
    unfolding waitPodReadyState_def polls_rounds by blast
qed

text \<open>The theorem for the timeout of 10 seconds, which allows one round.\<close>

theorem waitPodReadyState_bounded_witness:
  "WaitReadySeconds (Spec agent) = Some 10
   \<and> unat (10 :: 16 word) \<le> 65530
   \<and> (\<exists>out k. waitPodReadyState neverReady agent podA [EvDelete podA] =
          Some (out, [EvDelete podA]
                  @ concat (replicate k [EvSleep splaySleep, EvList (listOpsFor neverReady agent)]))
        \<and> k \<le> 1)"
proof -
  have t: "WaitReadySeconds (Spec agent) = Some 10"
    by (simp add: agent_def)
  have le: "unat (10 :: 16 word) \<le> 65530"
    by simp
  from waitPodReadyState_bounded [OF t le, of neverReady podA "[EvDelete podA]"]
  have "\<exists>out k. waitPodReadyState neverReady agent podA [EvDelete podA] =
          Some (out, [EvDelete podA]
                  @ concat (replicate k [EvSleep splaySleep, EvList (listOpsFor neverReady agent)]))
        \<and> k \<le> 1"
    by auto
  with t le show ?thesis by blast
qed

subsection \<open>The order of the deletes\<close>

lemma deleted_append:
  "deleted (tr @ tr') = deleted tr @ deleted tr'"
  by (induction tr rule: deleted.induct) simp_all

lemma waitLoop_deletes_nothing:
  assumes "waitLoop r inst pod splay status tr = Some (out, tr')"
  shows "deleted tr' = deleted tr"
proof -
  let ?P = "\<lambda>(r' :: 'a env) (inst' :: OneAgent) (pod' :: Pod) (splay' :: 16 word)
              (status' :: error option) (tr1 :: trace) (y :: error option outcome \<times> trace).
              deleted (snd y) = deleted tr1"
  have "?P r inst pod splay status tr (out, tr')"
  proof (rule waitLoop.raw_induct [where P = ?P, OF _ assms])
    fix loop r' inst' pod' and splay' :: "16 word" and status' tr1 ra
    assume IH: "\<And>r' inst' pod' splay' status' tr1 y.
        loop r' inst' pod' splay' status' tr1 = Some y \<Longrightarrow> ?P r' inst' pod' splay' status' tr1 y"
      and body: "(case WaitReadySeconds (Spec inst') of
        None \<Rightarrow> Some (Panic NilPointerDereference, tr1)
      | Some timeout \<Rightarrow>
          if splay' < timeout then
            (case ListPods r' (tr1 @ [EvSleep splaySleep]) (listOpsFor r' inst') of
               Inl err \<Rightarrow>
                 loop r' inst' pod' (splay' + splayTimeSeconds) (Some err)
                   (tr1 @ [EvSleep splaySleep, EvList (listOpsFor r' inst')])
             | Inr items \<Rightarrow>
                 (case checkFoundPods r' pod' (foundPods pod' items []) of
                    Break \<Rightarrow>
                      Some (Return None, tr1 @ [EvSleep splaySleep, EvList (listOpsFor r' inst')])
                  | Next status'' \<Rightarrow>
                      loop r' inst' pod' (splay' + splayTimeSeconds) status''
                        (tr1 @ [EvSleep splaySleep, EvList (listOpsFor r' inst')])))
          else Some (Return status', tr1)) = Some ra"
    have round: "deleted (tr1 @ [EvSleep splaySleep, EvList (listOpsFor r' inst')]) = deleted tr1"
      by (simp add: deleted_append)
    from body show "?P r' inst' pod' splay' status' tr1 ra"
      by (auto split: option.splits if_splits sum.splits iteration.splits
          dest!: IH simp: round)
  qed
  then show ?thesis by simp
qed

text \<open>
  Whenever \<^verbatim>\<open>deletePods\<close> returns, the pods it deleted are a prefix of the list it was
  given, deleted in the order of the list, and the whole list when it returns nil.
\<close>

theorem deletePods_in_list_order:
  assumes "deletePods r inst pods tr = Some (out, tr')"
  shows "\<exists>k. k \<le> length pods \<and> deleted tr' = deleted tr @ take k pods \<and>
             (if out = Return None then k = length pods else True)"
  using assms
proof (induction pods arbitrary: tr)
  case Nil
  then show ?case by auto
next
  case (Cons pod pods)
  show ?case
  proof (cases "DeletePod r tr pod")
    case (Some err)
    with Cons.prems have "out = Return (Some err)" "tr' = tr @ [EvDelete pod]" by auto
    then have "deleted tr' = deleted tr @ take 1 (pod # pods)"
      by (simp add: deleted_append)
    with \<open>out = Return (Some err)\<close> show ?thesis
      by (intro exI [of _ 1]) simp
  next
    case None
    with Cons.prems obtain w tr1 where
      w: "waitPodReadyState r inst pod (tr @ [EvDelete pod]) = Some (w, tr1)"
      by (auto split: option.splits)
    then have d1: "deleted tr1 = deleted tr @ [pod]"
      by (simp add: waitPodReadyState_def waitLoop_deletes_nothing deleted_append)
    show ?thesis
    proof (cases "w = Return None")
      case True
      with None w Cons.prems have "deletePods r inst pods tr1 = Some (out, tr')" by simp
      from Cons.IH [OF this] obtain k where
        "k \<le> length pods" "deleted tr' = deleted tr1 @ take k pods"
        "if out = Return None then k = length pods else True"
        by blast
      with d1 show ?thesis
        by (intro exI [of _ "Suc k"]) (simp split: if_splits)
    next
      case False
      with None w Cons.prems have "out = w" "tr' = tr1"
        by (auto split: outcome.splits option.splits)
      with d1 False show ?thesis
        by (intro exI [of _ 1]) simp
    qed
  qed
qed

text \<open>
  The theorem for the rollout in which the second pod's delete is refused: one pod of the
  two was deleted.
\<close>

theorem deletePods_in_list_order_witness:
  "deletePods secondGone agent [podA, podB] [] =
     Some (Return (Some (StatusNotFound ''pods'')),
           [EvDelete podA, EvSleep splaySleep, EvList (listOpsFor secondGone agent),
            EvDelete podB])
   \<and> (\<exists>k. k \<le> length [podA, podB]
        \<and> deleted [EvDelete podA, EvSleep splaySleep, EvList (listOpsFor secondGone agent),
                    EvDelete podB] = deleted [] @ take k [podA, podB])"
proof -
  have a: "deletePods secondGone agent [podA, podB] [] =
     Some (Return (Some (StatusNotFound ''pods'')),
           [EvDelete podA, EvSleep splaySleep, EvList (listOpsFor secondGone agent),
            EvDelete podB])"
    by (simp add: waitPodReadyState_def waitLoop.simps agent_def secondGone_def replaced_def
        steady_def checkFoundPods_def runningPod_def podA_def podB_def PodRunning_def
        splayTimeSeconds_def listOpsFor_def)
  from deletePods_in_list_order [OF a] a show ?thesis by blast
qed

section \<open>Properties of the status persistence\<close>

text \<open>
  When the spec-update write succeeds and the status-only write fails, \<^verbatim>\<open>updateCR\<close>
  returns the error of the second write, and the caller's instance is the object the
  first write stored with the status saved before the call, stamped with the clock's time.
\<close>

theorem updateCR_second_write_fails:
  assumes "Update r (tr @ [EvNow])
             (inst\<lparr>Status := emptyStatus\<rparr>) = Inr stored"
    and "StatusUpdate r (tr @ [EvNow, EvUpdate (inst\<lparr>Status := emptyStatus\<rparr>)])
           (stored\<lparr>Status := (Status inst)\<lparr>UpdatedTimestamp := Now r tr\<rparr>\<rparr>) = Inl err"
  shows "fst (updateCR r inst tr) =
           (Some err, stored\<lparr>Status := (Status inst)\<lparr>UpdatedTimestamp := Now r tr\<rparr>\<rparr>)"
  using assms by (simp add: updateCR_def Let_def)

text \<open>The theorem for the store that refuses the status-only write.\<close>

theorem updateCR_second_write_fails_witness:
  "Update statusUpdateRefused ([] @ [EvNow]) (agent\<lparr>Status := emptyStatus\<rparr>) =
     Inr (agent\<lparr>Status := emptyStatus\<rparr>)
   \<and> fst (updateCR statusUpdateRefused agent []) =
       (Some (StatusFailure ''conflict''),
        agent\<lparr>Status := emptyStatus\<rparr>
          \<lparr>Status := (Status agent)\<lparr>UpdatedTimestamp := Now statusUpdateRefused []\<rparr>\<rparr>)"
proof -
  have u: "Update statusUpdateRefused ([] @ [EvNow]) (agent\<lparr>Status := emptyStatus\<rparr>) =
     Inr (agent\<lparr>Status := emptyStatus\<rparr>)"
    by (simp add: statusUpdateRefused_def steady_def)
  have f: "StatusUpdate statusUpdateRefused
       ([] @ [EvNow, EvUpdate (agent\<lparr>Status := emptyStatus\<rparr>)])
       (agent\<lparr>Status := emptyStatus\<rparr>
          \<lparr>Status := (Status agent)\<lparr>UpdatedTimestamp := Now statusUpdateRefused []\<rparr>\<rparr>) =
       Inl (StatusFailure ''conflict'')"
    by (simp add: statusUpdateRefused_def steady_def)
  from updateCR_second_write_fails [OF u f] u show ?thesis by blast
qed

lemma updateCR_error_iff:
  "fst (fst (updateCR r inst tr)) \<noteq> None \<longleftrightarrow>
     (case Update r (tr @ [EvNow]) (inst\<lparr>Status := emptyStatus\<rparr>) of
        Inl err \<Rightarrow> True
      | Inr stored \<Rightarrow>
          (case StatusUpdate r (tr @ [EvNow, EvUpdate (inst\<lparr>Status := emptyStatus\<rparr>)])
                  (stored\<lparr>Status := (Status inst)\<lparr>UpdatedTimestamp := Now r tr\<rparr>\<rparr>) of
             Inl err \<Rightarrow> True
           | Inr stored' \<Rightarrow> False))"
  by (simp add: updateCR_def Let_def split: sum.splits)

text \<open>
  C1. The claim is that after a failure of either write the caller's instance holds the
  saved status with the new timestamp. The code restores the saved status only after the
  first write has succeeded (line 313); when the first write fails, line 310 returns with
  the placeholder of line 307 still in the instance. Here the store refuses the
  spec-update write: the error is returned, and the status of the instance is the empty
  placeholder, not the status saved before the call with the timestamp 42 of the clock.
\<close>

theorem updateCR_first_write_fails_keeps_placeholder:
  "updateCR updateRefused agent [] =
     ((Some (StatusFailure ''conflict''), agent\<lparr>Status := emptyStatus\<rparr>),
      [EvNow, EvUpdate (agent\<lparr>Status := emptyStatus\<rparr>)])
   \<and> Status (snd (fst (updateCR updateRefused agent []))) = emptyStatus
   \<and> Status (snd (fst (updateCR updateRefused agent []))) \<noteq>
       (Status agent)\<lparr>UpdatedTimestamp := Now updateRefused []\<rparr>"
  by (simp add: updateCR_def updateRefused_def steady_def Let_def agent_def emptyStatus_def)

section \<open>Properties of the tick\<close>

lemma reconcileVersion_query_fails:
  "GetVersionForLatest r tr dtc = Inl err \<Longrightarrow>
   reconcileVersion r inst dtc tr =
     Some (Return ((False, None), inst), tr @ [EvGetVersionForLatest])"
  by (simp add: reconcileVersion_def)

text \<open>
  C2, as the code has it. A tick reaches the update-disabled check when the instance was
  fetched and is valid, names its tokens, the vendor client was built, the mesh hook (if
  enabled) did not report an update, and \<^verbatim>\<open>reconcileRollout\<close> returned no error and no update
  of the custom resource. If automatic update is disabled, the tick then ends with no
  error and the empty result: neither a requeue nor a delay is requested. Its history
  ends where \<^verbatim>\<open>reconcileRollout\<close> left it, so no version convergence took place.
\<close>

theorem Reconcile_update_disabled:
  assumes "GetOneAgent r tr request = Inr fetched"
    and "inst = SchemeDefault r fetched"
    and "validate r inst = None"
    and "Tokens (Spec inst) \<noteq> []"
    and "dynatraceClientFunc r (tr @ [EvGet request]) inst = Inr dtc"
    and "tr2 = tr @ [EvGet request, EvBuildClient]"
    and "EnableIstio (Spec inst) \<Longrightarrow>
           \<not> (snd (reconcileIstio r tr2 inst dtc) \<and> fst (reconcileIstio r tr2 inst dtc))"
    and "tr3 = (if EnableIstio (Spec inst) then tr2 @ [EvIstio] else tr2)"
    and "reconcileRollout r inst tr3 = (Return ((False, None), inst1), tr4)"
    and "DisableAgentUpdate (Spec inst1)"
  shows "Reconcile r request tr =
           Some (Return (\<lparr>Requeue = False, RequeueAfter = 0\<rparr>, None), tr4)"
  using assms by (auto simp add: Reconcile_def Let_def emptyResult_def)

text \<open>The theorem for the instance with automatic updates switched off.\<close>

theorem Reconcile_update_disabled_witness:
  "DisableAgentUpdate (Spec (agent\<lparr>Spec := (Spec agent)\<lparr>DisableAgentUpdate := True\<rparr>\<rparr>))
   \<and> reconcileRollout updatesOff (agent\<lparr>Spec := (Spec agent)\<lparr>DisableAgentUpdate := True\<rparr>\<rparr>)
        [EvGet (''dynatrace'', ''oneagent''), EvBuildClient] =
       (Return ((False, None), agent\<lparr>Spec := (Spec agent)\<lparr>DisableAgentUpdate := True\<rparr>\<rparr>),
        [EvGet (''dynatrace'', ''oneagent''), EvBuildClient,
         EvGetDaemonSet (''dynatrace'', ''oneagent'')])
   \<and> Reconcile updatesOff (''dynatrace'', ''oneagent'') [] =
       Some (Return (\<lparr>Requeue = False, RequeueAfter = 0\<rparr>, None),
             [EvGet (''dynatrace'', ''oneagent''), EvBuildClient,
              EvGetDaemonSet (''dynatrace'', ''oneagent'')])"
proof -
  let ?inst = "agent\<lparr>Spec := (Spec agent)\<lparr>DisableAgentUpdate := True\<rparr>\<rparr>"
  let ?req = "(''dynatrace'', ''oneagent'')"
  have g: "GetOneAgent updatesOff [] ?req = Inr ?inst"
    by (simp add: updatesOff_def steady_def)
  have s: "?inst = SchemeDefault updatesOff ?inst"
    by (simp add: updatesOff_def steady_def)
  have v: "validate updatesOff ?inst = None"
    by (simp add: updatesOff_def steady_def)
  have k: "Tokens (Spec ?inst) \<noteq> []"
    by (simp add: agent_def)
  have c: "dynatraceClientFunc updatesOff ([] @ [EvGet ?req]) ?inst = Inr ()"
    by (simp add: updatesOff_def steady_def)
  have i: "EnableIstio (Spec ?inst) \<Longrightarrow>
      \<not> (snd (reconcileIstio updatesOff [EvGet ?req, EvBuildClient] ?inst ()) \<and>
         fst (reconcileIstio updatesOff [EvGet ?req, EvBuildClient] ?inst ()))"
    by (simp add: agent_def)
  have t3: "[EvGet ?req, EvBuildClient] =
      (if EnableIstio (Spec ?inst) then [EvGet ?req, EvBuildClient] @ [EvIstio]
       else [EvGet ?req, EvBuildClient])"
    by (simp add: agent_def)
  have ro: "reconcileRollout updatesOff ?inst [EvGet ?req, EvBuildClient] =
      (Return ((False, None), ?inst),
       [EvGet ?req, EvBuildClient, EvGetDaemonSet (''dynatrace'', ''oneagent'')])"
    by (simp add: reconcileRollout_def updatesOff_def steady_def agent_def Let_def
        newDaemonSetForCR_def)
  have d: "DisableAgentUpdate (Spec ?inst)"
    by simp
  from Reconcile_update_disabled [OF g s v k c _ i t3 ro d] ro d
  show ?thesis by simp
qed

text \<open>
  C2 as stated fails: the tick of that instance reaches the check and ends with the empty
  result, whose delay is 0 and not 30 minutes.
\<close>

theorem Reconcile_update_disabled_counterexample:
  "Reconcile updatesOff (''dynatrace'', ''oneagent'') [] =
     Some (Return (emptyResult, None),
           [EvGet (''dynatrace'', ''oneagent''), EvBuildClient,
            EvGetDaemonSet (''dynatrace'', ''oneagent'')])
   \<and> Requeue emptyResult = False
   \<and> RequeueAfter emptyResult \<noteq> 30 * Minute"
  by (simp add: Reconcile_def reconcileRollout_def updatesOff_def steady_def agent_def Let_def
      newDaemonSetForCR_def emptyResult_def Minute_def Second_def)

text \<open>
  C7. When a tick reaches version convergence and the vendor API's latest-version query
  fails, \<^verbatim>\<open>reconcileVersion\<close> returns no error and asks for no update of the custom resource,
  with the instance (its status version included) as it was and nothing done after the
  query; the tick then ends with no error and a requeue after 30 minutes.
\<close>

theorem Reconcile_vendor_query_fails:
  assumes "GetOneAgent r tr request = Inr fetched"
    and "inst = SchemeDefault r fetched"
    and "validate r inst = None"
    and "Tokens (Spec inst) \<noteq> []"
    and "dynatraceClientFunc r (tr @ [EvGet request]) inst = Inr dtc"
    and "tr2 = tr @ [EvGet request, EvBuildClient]"
    and "EnableIstio (Spec inst) \<Longrightarrow>
           \<not> (snd (reconcileIstio r tr2 inst dtc) \<and> fst (reconcileIstio r tr2 inst dtc))"
    and "tr3 = (if EnableIstio (Spec inst) then tr2 @ [EvIstio] else tr2)"
    and "reconcileRollout r inst tr3 = (Return ((False, None), inst1), tr4)"
    and "\<not> DisableAgentUpdate (Spec inst1)"
    and "GetVersionForLatest r tr4 dtc = Inl err"
  shows "reconcileVersion r inst1 dtc tr4 =
           Some (Return ((False, None), inst1), tr4 @ [EvGetVersionForLatest])
       \<and> Reconcile r request tr =
           Some (Return (\<lparr>Requeue = False, RequeueAfter = 30 * Minute\<rparr>, None),
                 tr4 @ [EvGetVersionForLatest])"
  using assms
  by (auto simp add: Reconcile_def Let_def emptyResult_def reconcileVersion_query_fails)

text \<open>The theorem for a tick during which the vendor API cannot be reached.\<close>

theorem Reconcile_vendor_query_fails_witness:
  "GetVersionForLatest vendorDown
       [EvGet (''dynatrace'', ''oneagent''), EvBuildClient,
        EvGetDaemonSet (''dynatrace'', ''oneagent'')] () = Inl (StatusFailure ''timeout'')
   \<and> reconcileVersion vendorDown agent ()
        [EvGet (''dynatrace'', ''oneagent''), EvBuildClient,
         EvGetDaemonSet (''dynatrace'', ''oneagent'')] =
       Some (Return ((False, None), agent),
             [EvGet (''dynatrace'', ''oneagent''), EvBuildClient,
              EvGetDaemonSet (''dynatrace'', ''oneagent'')] @ [EvGetVersionForLatest])
   \<and> Reconcile vendorDown (''dynatrace'', ''oneagent'') [] =
       Some (Return (\<lparr>Requeue = False, RequeueAfter = 30 * Minute\<rparr>, None),
             [EvGet (''dynatrace'', ''oneagent''), EvBuildClient,
              EvGetDaemonSet (''dynatrace'', ''oneagent'')] @ [EvGetVersionForLatest])"
proof -
  let ?req = "(''dynatrace'', ''oneagent'')"
  have g: "GetOneAgent vendorDown [] ?req = Inr agent"
    by (simp add: vendorDown_def steady_def)
  have s: "agent = SchemeDefault vendorDown agent"
    by (simp add: vendorDown_def steady_def)
  have v: "validate vendorDown agent = None"
    by (simp add: vendorDown_def steady_def)
  have k: "Tokens (Spec agent) \<noteq> []"
    by (simp add: agent_def)
  have c: "dynatraceClientFunc vendorDown ([] @ [EvGet ?req]) agent = Inr ()"
    by (simp add: vendorDown_def steady_def)
  have i: "EnableIstio (Spec agent) \<Longrightarrow>
      \<not> (snd (reconcileIstio vendorDown [EvGet ?req, EvBuildClient] agent ()) \<and>
         fst (reconcileIstio vendorDown [EvGet ?req, EvBuildClient] agent ()))"
    by (simp add: agent_def)
  have t3: "[EvGet ?req, EvBuildClient] =
      (if EnableIstio (Spec agent) then [EvGet ?req, EvBuildClient] @ [EvIstio]
       else [EvGet ?req, EvBuildClient])"
    by (simp add: agent_def)
  have ro: "reconcileRollout vendorDown agent [EvGet ?req, EvBuildClient] =
      (Return ((False, None), agent),
       [EvGet ?req, EvBuildClient, EvGetDaemonSet (''dynatrace'', ''oneagent'')])"
    by (simp add: reconcileRollout_def vendorDown_def steady_def agent_def Let_def
        newDaemonSetForCR_def)
  have d: "\<not> DisableAgentUpdate (Spec agent)"
    by (simp add: agent_def)
  have q: "GetVersionForLatest vendorDown
       [EvGet ?req, EvBuildClient, EvGetDaemonSet (''dynatrace'', ''oneagent'')] () =
       Inl (StatusFailure ''timeout'')"
    by (simp add: vendorDown_def steady_def)
  from Reconcile_vendor_query_fails [OF g s v k c _ i t3 ro d q] q
  show ?thesis by simp
qed

text \<open>
  C10. \<^verbatim>\<open>reconcileRollout\<close> indexes the first element of the instance's environment list
  before anything else. On an empty list this is a run-time panic and no call is made; on
  a list with an element the step returns. A tick that reaches the step with an empty
  list ends in that panic.
\<close>

theorem reconcileRollout_needs_env:
  "(Env (Spec inst) = [] \<longrightarrow> reconcileRollout r inst tr = (Panic IndexOutOfRange, tr))
   \<and> (Env (Spec inst) \<noteq> [] \<longrightarrow> (\<exists>res tr'. reconcileRollout r inst tr = (Return res, tr')))
   \<and> (GetOneAgent r tr0 request = Inr fetched \<and> inst = SchemeDefault r fetched \<and>
      validate r inst = None \<and> Tokens (Spec inst) \<noteq> [] \<and>
      dynatraceClientFunc r (tr0 @ [EvGet request]) inst = Inr dtc \<and>
      (EnableIstio (Spec inst) \<longrightarrow>
         \<not> (snd (reconcileIstio r (tr0 @ [EvGet request, EvBuildClient]) inst dtc) \<and>
            fst (reconcileIstio r (tr0 @ [EvGet request, EvBuildClient]) inst dtc))) \<and>
      Env (Spec inst) = [] \<longrightarrow>
      Reconcile r request tr0 =
        Some (Panic IndexOutOfRange,
              if EnableIstio (Spec inst) then tr0 @ [EvGet request, EvBuildClient, EvIstio]
              else tr0 @ [EvGet request, EvBuildClient]))"
proof (intro conjI impI)
  assume "Env (Spec inst) = []"
  then show "reconcileRollout r inst tr = (Panic IndexOutOfRange, tr)"
    by (simp add: reconcileRollout_def)
next
  assume "Env (Spec inst) \<noteq> []"
  then show "\<exists>res tr'. reconcileRollout r inst tr = (Return res, tr')"
    by (auto simp add: reconcileRollout_def Let_def
        split: list.splits sum.splits option.splits)
next
  assume "GetOneAgent r tr0 request = Inr fetched \<and> inst = SchemeDefault r fetched \<and>
      validate r inst = None \<and> Tokens (Spec inst) \<noteq> [] \<and>
      dynatraceClientFunc r (tr0 @ [EvGet request]) inst = Inr dtc \<and>
      (EnableIstio (Spec inst) \<longrightarrow>
         \<not> (snd (reconcileIstio r (tr0 @ [EvGet request, EvBuildClient]) inst dtc) \<and>
            fst (reconcileIstio r (tr0 @ [EvGet request, EvBuildClient]) inst dtc))) \<and>
      Env (Spec inst) = []"
  then show "Reconcile r request tr0 =
        Some (Panic IndexOutOfRange,
              if EnableIstio (Spec inst) then tr0 @ [EvGet request, EvBuildClient, EvIstio]
              else tr0 @ [EvGet request, EvBuildClient])"
    by (auto simp add: Reconcile_def Let_def reconcileRollout_def)
qed

text \<open>
  The theorem for the instance without an environment variable, whose tick panics after
  the fetch and the building of the client, and for the instance of the steady cluster,
  whose step returns.
\<close>

theorem reconcileRollout_needs_env_witness:
  "Env (Spec (agent\<lparr>Spec := (Spec agent)\<lparr>Env := []\<rparr>\<rparr>)) = []
   \<and> reconcileRollout noEnv (agent\<lparr>Spec := (Spec agent)\<lparr>Env := []\<rparr>\<rparr>)
        [EvGet (''dynatrace'', ''oneagent''), EvBuildClient] =
       (Panic IndexOutOfRange, [EvGet (''dynatrace'', ''oneagent''), EvBuildClient])
   \<and> Reconcile noEnv (''dynatrace'', ''oneagent'') [] =
       Some (Panic IndexOutOfRange, [EvGet (''dynatrace'', ''oneagent''), EvBuildClient])
   \<and> Env (Spec agent) \<noteq> []
   \<and> (\<exists>res tr'. reconcileRollout steady agent [] = (Return res, tr'))"
proof -
  let ?inst = "agent\<lparr>Spec := (Spec agent)\<lparr>Env := []\<rparr>\<rparr>"
  let ?req = "(''dynatrace'', ''oneagent'')"
  have e: "Env (Spec ?inst) = []"
    by simp
  have n: "Env (Spec agent) \<noteq> []"
    by (simp add: agent_def)
  have reach: "GetOneAgent noEnv [] ?req = Inr ?inst \<and> ?inst = SchemeDefault noEnv ?inst \<and>
      validate noEnv ?inst = None \<and> Tokens (Spec ?inst) \<noteq> [] \<and>
      dynatraceClientFunc noEnv ([] @ [EvGet ?req]) ?inst = Inr () \<and>
      (EnableIstio (Spec ?inst) \<longrightarrow>
         \<not> (snd (reconcileIstio noEnv ([] @ [EvGet ?req, EvBuildClient]) ?inst ()) \<and>
            fst (reconcileIstio noEnv ([] @ [EvGet ?req, EvBuildClient]) ?inst ()))) \<and>
      Env (Spec ?inst) = []"
    by (simp add: noEnv_def steady_def agent_def)
  have ni: "\<not> EnableIstio (Spec ?inst)"
    by (simp add: agent_def)
  note a = reconcileRollout_needs_env
    [of ?inst noEnv "[EvGet ?req, EvBuildClient]" "[]" ?req ?inst "()"]
  note b = reconcileRollout_needs_env [of agent steady "[]"]
  have p1: "reconcileRollout noEnv ?inst [EvGet ?req, EvBuildClient] =
       (Panic IndexOutOfRange, [EvGet ?req, EvBuildClient])"
    using a e by blast
  have p2: "Reconcile noEnv ?req [] = Some (Panic IndexOutOfRange, [EvGet ?req, EvBuildClient])"
    using a [THEN conjunct2, THEN conjunct2, rule_format, OF reach] ni by simp
  have p3: "\<exists>res tr'. reconcileRollout steady agent [] = (Return res, tr')"
    using b n by blast
  from e p1 p2 n p3 show ?thesis by blast
qed

end
